theory Spec2Isabelle
  imports Main
begin

section \<open>JavaScript values as the Producer sees them\<close>

text \<open>
  The Producer class is written against dynamically typed values.
  A value is either a primitive or an object; the payload \<open>'o\<close> of \<open>Obj\<close> is what the code
  reads from the object at the place the value is used. Numbers are restricted to
  integers.
\<close>

datatype 'o jsval = Undefined | Null | Bool bool | Num int | Str string | Obj 'o

text \<open>JavaScript truthiness, as tested by \<^verbatim>\<open>if (v)\<close> and \<^verbatim>\<open>!v\<close>.\<close>

fun truthy :: "'o jsval \<Rightarrow> bool" where
  "truthy Undefined = False"
| "truthy Null = False"
| "truthy (Bool b) = b"
| "truthy (Num n) = (n \<noteq> 0)"
| "truthy (Str s) = (s \<noteq> [])"
| "truthy (Obj _) = True"

text \<open>\<^verbatim>\<open>v instanceof Object\<close>: no primitive is an instance of \<^verbatim>\<open>Object\<close>.\<close>

fun instanceofObject :: "'o jsval \<Rightarrow> bool" where
  "instanceofObject (Obj _) = True"
| "instanceofObject _ = False"

text \<open>
  Optional fields read through \<^verbatim>\<open>_.get\<close>: \<open>None\<close> is \<^verbatim>\<open>undefined\<close>. A string field is
  truthy when it is present and not empty, a number field when it is present and not 0.
\<close>

definition truthyStr :: "string option \<Rightarrow> bool" where
  "truthyStr v = (case v of None \<Rightarrow> False | Some s \<Rightarrow> s \<noteq> [])"

definition truthyNum :: "nat option \<Rightarrow> bool" where
  "truthyNum v = (case v of None \<Rightarrow> False | Some n \<Rightarrow> n \<noteq> 0)"

text \<open>
  \<^verbatim>\<open>_.toUpper\<close> and \<^verbatim>\<open>_.toLower\<close> on strings. Characters are bytes here, and only the
  letters of ASCII change case: the two functions are those of lodash on ASCII strings,
  and leave alone the letters beyond ASCII that lodash would map.
\<close>

definition toUpperChar :: "char \<Rightarrow> char" where
  "toUpperChar c =
     (case map_of (zip ''abcdefghijklmnopqrstuvwxyz'' ''ABCDEFGHIJKLMNOPQRSTUVWXYZ'') c of
        None \<Rightarrow> c | Some u \<Rightarrow> u)"

definition toLowerChar :: "char \<Rightarrow> char" where
  "toLowerChar c =
     (case map_of (zip ''ABCDEFGHIJKLMNOPQRSTUVWXYZ'' ''abcdefghijklmnopqrstuvwxyz'') c of
        None \<Rightarrow> c | Some l \<Rightarrow> l)"

definition toUpper :: "string \<Rightarrow> string" where
  "toUpper s = map toUpperChar s"

definition toLower :: "string \<Rightarrow> string" where
  "toLower s = map toLowerChar s"

text \<open>
  Decimal rendering of a number, as string coercion gives it for an integer of less than
  22 digits (from there on JavaScript prints an exponent).
\<close>

definition digitChar :: "nat \<Rightarrow> char" where
  "digitChar d = ''0123456789'' ! d"

fun showNat :: "nat \<Rightarrow> string" where
  "showNat n =
     (if n < 10 then [digitChar n] else showNat (n div 10) @ [digitChar (n mod 10)])"

declare showNat.simps [simp del]

definition showInt :: "int \<Rightarrow> string" where
  "showInt i = (if i < 0 then CHR ''-'' # showNat (nat (- i)) else showNat (nat i))"


section \<open>Data model\<close>

text \<open>
  An intelligence, with the fields the Producer reads or writes. \<open>soi\<close> is the destination
  of the result, \<open>system_state\<close> is \<^verbatim>\<open>system.state\<close>, \<open>system_failuresReason\<close> is
  \<^verbatim>\<open>system.failuresReason\<close>, \<open>system_producer_endedAt\<close> is \<^verbatim>\<open>system.producer.endedAt\<close>.
  Fields that the Producer never looks at are left out.
\<close>

record soi =
  baseURL :: "string option"
  callback_method :: "string option"
  callback_path :: "string option"
  apiKey :: "string option"

record intelligence =
  globalId :: "string option"
  soi :: soi
  system_state :: "string option"
  system_failuresReason :: "string option"
  system_producer_endedAt :: "nat option"
  dataset :: "unit jsval"

text \<open>
  The \<^verbatim>\<open>reason\<close> argument of \<^verbatim>\<open>setIntelligenceState\<close>: an object is either an
  \<^verbatim>\<open>Error\<close>, given by its \<^verbatim>\<open>message\<close>, or another object, given by the text
  \<^verbatim>\<open>JSON.stringify\<close> returns for it.
\<close>

datatype reason_object = ErrorObject string | PlainObject string

type_synonym reason = "reason_object jsval"

text \<open>The resolved configuration snapshot of \<^verbatim>\<open>getConfigs\<close>.\<close>

record configs =
  BITSKY_BASE_URL :: "string option"
  BITSKY_SECURITY_KEY :: "string option"
  GLOBAL_ID :: "string option"
  PRODUCER_SERIAL_ID :: "string option"

text \<open>The remote producer configuration, with the fields the Producer reads.\<close>

record producer_config =
  cfg_globalId :: "string option"
  cfg_type :: "string option"
  cfg_system_version :: "string option"
  cfg_system_state :: "string option"
  cfg_pollingInterval :: "nat option"

text \<open>
  \<^verbatim>\<open>__producerError\<close>: \<open>pe_error\<close> tells whether the object has the \<^verbatim>\<open>error: true\<close>
  field, that is, which of the two object literals of \<^verbatim>\<open>getProducerConfiguration\<close>
  built it.
\<close>

record producer_error =
  pe_error :: bool
  pe_status :: int
  pe_code :: "string option"
  pe_message :: "string option"

text \<open>
  \<^verbatim>\<open>__runningJob\<close>. \<open>collectedIntelligencesDict\<close> holds the properties that were assigned
  to the dictionary, which is a plain object \<^verbatim>\<open>{}\<close>; reading it is \<open>dictionaryLookup\<close>
  below. \<open>jobTimeoutHandler\<close> tells whether a timeout is armed.
\<close>

record running_job =
  totalIntelligences :: "intelligence list"
  collectedIntelligencesDict :: "string \<rightharpoonup> intelligence"
  collectedIntelligencesNumber :: nat
  jobId :: "string option"
  startTime :: nat
  jobTimeout :: bool
  endingCollectIntelligencesJob :: bool
  jobTimeoutHandler :: bool
  lockJob :: bool

text \<open>
  An object passed to \<^verbatim>\<open>type(t)\<close>: a \<^verbatim>\<open>String\<close> object with its text, or any other
  object.
\<close>

datatype type_object = StringObject string | OtherObject

text \<open>
  The Producer. \<open>watchIntelligencesIntervalHandler\<close> holds the period in milliseconds of
  the job loop when its interval is set. The worker, the context and the handle of the
  watcher's own interval are read by no block below and are left out.
\<close>

record producer =
  ptype :: "type_object jsval"
  producerError :: "producer_error option"
  ranJobNumber :: nat
  currentProducerConfig :: "producer_config option"
  watchIntelligencesIntervalHandler :: "nat option"
  runningJob :: running_job
  manuallySetConfigs :: configs


text \<open>
  The constants module is not part of the sources; its values are parameters.
  \<open>joinURL\<close> is the helper of \<^verbatim>\<open>./utils\<close> called as \<^verbatim>\<open>joinURL(callbackPath, baseUrl)\<close>.
\<close>

record constants =
  SERVICE_AGENT_TYPE :: string
  DEFAULT_AGENT_CONFIGURATION :: producer_config
  AGENT_STATE_active :: string
  X_SECURITY_KEY_HEADER :: string
  joinURL :: "string \<Rightarrow> string \<Rightarrow> string"

text \<open>
  What \<^verbatim>\<open>getConfigs\<close> reads outside the Producer: the process environment, and the serial
  id that the preferences file (or a new uuid) supplies when none is configured.
\<close>

record environment =
  process_env :: configs
  preferences_PRODUCER_SERIAL_ID :: string


section \<open>Configuration overrides\<close>

text \<open>
  \<^verbatim>\<open>setConfigs(configs)\<close>: the argument replaces \<^verbatim>\<open>__manuallySetConfigs\<close> when it is an
  instance of \<^verbatim>\<open>Object\<close>, and nothing happens otherwise.
\<close>

definition setConfigs :: "configs jsval \<Rightarrow> producer \<Rightarrow> producer" where
  "setConfigs cfgs p =
     (case cfgs of Obj c \<Rightarrow> p\<lparr>manuallySetConfigs := c\<rparr> | _ \<Rightarrow> p)"

text \<open>\<^verbatim>\<open>resetRunningJob\<close> zeroes the running job in place.\<close>

definition idleJob :: running_job where
  "idleJob =
     \<lparr>totalIntelligences = [], collectedIntelligencesDict = Map.empty,
      collectedIntelligencesNumber = 0, jobId = None, startTime = 0, jobTimeout = False,
      endingCollectIntelligencesJob = False, jobTimeoutHandler = False, lockJob = False\<rparr>"

definition resetRunningJob :: "producer \<Rightarrow> producer" where
  "resetRunningJob p = p\<lparr>runningJob := idleJob\<rparr>"

text \<open>The constructor: the initial fields, then \<^verbatim>\<open>this.setConfigs(configs)\<close>.\<close>

definition Producer :: "constants \<Rightarrow> configs jsval \<Rightarrow> producer" where
  "Producer K cfgs =
     setConfigs cfgs
       \<lparr>ptype = Str (SERVICE_AGENT_TYPE K), producerError = None, ranJobNumber = 0,
        currentProducerConfig = None, watchIntelligencesIntervalHandler = None,
        runningJob = idleJob,
        manuallySetConfigs =
          \<lparr>BITSKY_BASE_URL = None, BITSKY_SECURITY_KEY = None, GLOBAL_ID = None,
           PRODUCER_SERIAL_ID = None\<rparr>\<rparr>"

text \<open>
  \<^verbatim>\<open>getConfigs\<close>: \<^verbatim>\<open>_.merge({}, DEFAULT_CONFIGS, env, manual)\<close> takes each key from the
  last source that defines it; the defaults are all undefined. A missing serial id is then
  filled in.
\<close>

definition mergeField :: "'a option \<Rightarrow> 'a option \<Rightarrow> 'a option" where
  "mergeField lower higher = (case higher of None \<Rightarrow> lower | Some v \<Rightarrow> Some v)"

definition getConfigs :: "environment \<Rightarrow> producer \<Rightarrow> configs" where
  "getConfigs env p =
     (let e = process_env env; m = manuallySetConfigs p;
          merged =
            \<lparr>BITSKY_BASE_URL = mergeField (BITSKY_BASE_URL e) (BITSKY_BASE_URL m),
             BITSKY_SECURITY_KEY = mergeField (BITSKY_SECURITY_KEY e) (BITSKY_SECURITY_KEY m),
             GLOBAL_ID = mergeField (GLOBAL_ID e) (GLOBAL_ID m),
             PRODUCER_SERIAL_ID = mergeField (PRODUCER_SERIAL_ID e) (PRODUCER_SERIAL_ID m)\<rparr>
      in if \<not> truthyStr (PRODUCER_SERIAL_ID merged)
         then merged\<lparr>PRODUCER_SERIAL_ID := Some (preferences_PRODUCER_SERIAL_ID env)\<rparr>
         else merged)"


section \<open>Intelligence state\<close>

text \<open>
  String coercion of an optional string, as a template literal or a property key does it:
  \<^verbatim>\<open>undefined\<close> becomes the text \<^verbatim>\<open>undefined\<close>.
\<close>

definition coerceString :: "string option \<Rightarrow> string" where
  "coerceString v = (case v of None \<Rightarrow> ''undefined'' | Some s \<Rightarrow> s)"

text \<open>
  The text stored for a truthy \<^verbatim>\<open>reason\<close>: the message of an Error, the JSON text of
  another object, \<^verbatim>\<open>_.toString\<close> of anything else.
\<close>

definition reasonStr :: "reason \<Rightarrow> string" where
  "reasonStr r =
     (case r of
        Obj (ErrorObject m) \<Rightarrow> m
      | Obj (PlainObject json) \<Rightarrow> json
      | Str s \<Rightarrow> s
      | Num n \<Rightarrow> showInt n
      | Bool b \<Rightarrow> (if b then ''true'' else ''false'')
      | _ \<Rightarrow> [])"

text \<open>
  \<^verbatim>\<open>setIntelligenceState(intelligence, state, reason)\<close>; \<open>now\<close> is what \<^verbatim>\<open>Date.now()\<close>
  returns. The object is changed in place and returned; the model returns the new value.
\<close>

definition setIntelligenceState :: "intelligence \<Rightarrow> string \<Rightarrow> reason \<Rightarrow> nat \<Rightarrow> intelligence" where
  "setIntelligenceState intelligence state reason now =
     (let i1 = intelligence\<lparr>system_state := Some (toUpper state)\<rparr>;
          i2 = (if truthyNum (system_producer_endedAt i1)
                then i1\<lparr>system_producer_endedAt := Some now\<rparr> else i1)
      in if truthy reason then i2\<lparr>system_failuresReason := Some (reasonStr reason)\<rparr> else i2)"


section \<open>Job runner\<close>

text \<open>
  The Producer runs on one event loop: a handler runs from its start to its first
  \<^verbatim>\<open>await\<close> (or to its end) without interruption. Each definition below is one such
  block; \<open>uuid\<close> and \<open>now\<close> are what \<^verbatim>\<open>uuid.v4()\<close> and \<^verbatim>\<open>Date.now()\<close> return in it,
  the clock being read as one instant for the whole block.
\<close>

definition initRunningJob :: "intelligence list option \<Rightarrow> string \<Rightarrow> nat \<Rightarrow> producer \<Rightarrow> producer" where
  "initRunningJob intelligences uuid now p =
     (let p1 = resetRunningJob p
      in p1\<lparr>runningJob := (runningJob p1)
           \<lparr>totalIntelligences := (case intelligences of None \<Rightarrow> [] | Some xs \<Rightarrow> xs),
            jobId := Some uuid, startTime := now, lockJob := True\<rparr>\<rparr>)"

text \<open>
  \<^verbatim>\<open>startCollectIntelligencesJob\<close> up to \<^verbatim>\<open>await getIntelligencesAPI(...)\<close>: the guard, then
  \<^verbatim>\<open>initRunningJob()\<close>.
\<close>

definition startCollectIntelligencesJob :: "string \<Rightarrow> nat \<Rightarrow> producer \<Rightarrow> producer" where
  "startCollectIntelligencesJob uuid now p =
     (if truthyStr (jobId (runningJob p)) \<or> lockJob (runningJob p)
         \<or> endingCollectIntelligencesJob (runningJob p)
      then p
      else initRunningJob None uuid now p)"

text \<open>
  The next two blocks of \<^verbatim>\<open>startCollectIntelligencesJob\<close>, for the list that
  \<^verbatim>\<open>getIntelligencesAPI\<close> returned: up to \<^verbatim>\<open>await this.__worker(...)\<close>, and from there to
  \<^verbatim>\<open>await Promise.allSettled(promises)\<close>, where the timeout is armed. With an empty list
  the worker is called once and the job is torn down.
\<close>

definition startCollectIntelligencesJob_received :: "intelligence list \<Rightarrow> producer \<Rightarrow> producer" where
  "startCollectIntelligencesJob_received intelligences p =
     (if intelligences = [] then p
      else p\<lparr>ranJobNumber := ranJobNumber p + 1,
             runningJob := (runningJob p)\<lparr>totalIntelligences := intelligences\<rparr>\<rparr>)"

definition startCollectIntelligencesJob_dispatched :: "intelligence list \<Rightarrow> producer \<Rightarrow> producer" where
  "startCollectIntelligencesJob_dispatched intelligences p =
     (if intelligences = [] then resetRunningJob p
      else p\<lparr>runningJob := (runningJob p)\<lparr>jobTimeoutHandler := True\<rparr>\<rparr>)"

text \<open>
  The argument of the call \<^verbatim>\<open>this.__worker({...})\<close> made in the first of these blocks: the
  batch, and the \<^verbatim>\<open>jobId\<close> and the configuration that the producer holds at that moment.
\<close>

record worker_call =
  call_intelligences :: "intelligence list"
  call_jobId :: "string option"
  call_producerConfig :: "producer_config option"

definition startCollectIntelligencesJob_workerCall :: "intelligence list \<Rightarrow> producer \<Rightarrow> worker_call" where
  "startCollectIntelligencesJob_workerCall intelligences p =
     (let p1 = startCollectIntelligencesJob_received intelligences p
      in \<lparr>call_intelligences = intelligences, call_jobId = jobId (runningJob p1),
          call_producerConfig = currentProducerConfig p1\<rparr>)"

text \<open>The callback of the job loop's interval (\<^verbatim>\<open>startPollingGetIntelligences\<close>).\<close>

definition pollingTick :: "string \<Rightarrow> nat \<Rightarrow> producer \<Rightarrow> producer" where
  "pollingTick uuid now p =
     (if \<not> truthyStr (jobId (runningJob p)) \<and> \<not> lockJob (runningJob p)
      then startCollectIntelligencesJob uuid now p
      else p)"

text \<open>
  Reading \<^verbatim>\<open>collectedIntelligencesDict[key]\<close>. The dictionary is a plain object, so a key
  that was never assigned still reads a value when it is the name of a property that
  every object inherits from \<^verbatim>\<open>Object.prototype\<close>: a built-in function, or the prototype
  itself for \<^verbatim>\<open>__proto__\<close>. That value is truthy and has none of the fields the Producer
  reads, apart from a \<^verbatim>\<open>system.state\<close> once the Producer has written one, which can only
  be \<^verbatim>\<open>FAILED\<close>; \<open>inheritedObject\<close> is the value as the Producer first sees it. An
  assignment under \<^verbatim>\<open>__proto__\<close> makes the assigned object the prototype of the
  dictionary; it is read back under that key like any entry, and the properties the
  dictionary then inherits from it are not followed.
\<close>

definition inheritedPropertyNames :: "string list" where
  "inheritedPropertyNames =
     [''constructor'', ''__defineGetter__'', ''__defineSetter__'', ''hasOwnProperty'',
      ''__lookupGetter__'', ''__lookupSetter__'', ''isPrototypeOf'', ''propertyIsEnumerable'',
      ''toString'', ''valueOf'', ''__proto__'', ''toLocaleString'']"

definition inheritedObject :: intelligence where
  "inheritedObject =
     \<lparr>globalId = None,
      soi = \<lparr>baseURL = None, callback_method = None, callback_path = None, apiKey = None\<rparr>,
      system_state = None, system_failuresReason = None, system_producer_endedAt = None,
      dataset = Undefined\<rparr>"

definition dictionaryLookup :: "(string \<rightharpoonup> intelligence) \<Rightarrow> string \<Rightarrow> intelligence option" where
  "dictionaryLookup dict key =
     (case dict key of
        Some found \<Rightarrow> Some found
      | None \<Rightarrow> if key \<in> set inheritedPropertyNames then Some inheritedObject else None)"

text \<open>
  The loop of \<^verbatim>\<open>endCollectIntelligencesJob\<close> that builds \<^verbatim>\<open>temp\<close>. A missing
  \<^verbatim>\<open>globalId\<close> reads the property named \<^verbatim>\<open>undefined\<close>.
\<close>

definition notResolvedReason :: string where
  "notResolvedReason =
     ''Intelligence failed caused by timeout or you didn't resolve(intelligence) or reject(intelligence) in your producer''"

fun reconcileLoop ::
  "nat \<Rightarrow> (string \<rightharpoonup> intelligence) \<Rightarrow> intelligence list \<Rightarrow> intelligence list \<Rightarrow> intelligence list"
where
  "reconcileLoop now dict [] temp = temp"
| "reconcileLoop now dict (tmp # rest) temp =
     (let intelligence =
            (case dictionaryLookup dict (coerceString (globalId tmp)) of
               None \<Rightarrow> setIntelligenceState tmp ''FAILED'' (Str notResolvedReason) now
             | Some found \<Rightarrow>
                 if \<not> truthyStr (system_state found)
                 then (if truthy (dataset found)
                       then setIntelligenceState found ''FINISHED'' Undefined now
                       else setIntelligenceState found ''FAILED'' Undefined now)
                 else found)
      in reconcileLoop now dict rest (temp @ [intelligence]))"

text \<open>
  \<^verbatim>\<open>endCollectIntelligencesJob\<close> up to \<^verbatim>\<open>await this.sendToSOIAndDIA(...)\<close>: the guard, the
  ending flag, and the reconciled list, which is what the dispatcher receives.
\<close>

definition endCollectIntelligencesJob :: "nat \<Rightarrow> producer \<Rightarrow> producer" where
  "endCollectIntelligencesJob now p =
     (let j = runningJob p
      in if \<not> truthyStr (jobId j) \<or> \<not> lockJob j \<or> endingCollectIntelligencesJob j
         then p
         else p\<lparr>runningJob := j
                \<lparr>endingCollectIntelligencesJob := True,
                 totalIntelligences :=
                   reconcileLoop now (collectedIntelligencesDict j) (totalIntelligences j) []\<rparr>\<rparr>)"

text \<open>
  The rest of \<^verbatim>\<open>endCollectIntelligencesJob\<close>, once the dispatcher has settled: teardown,
  then \<^verbatim>\<open>this.startCollectIntelligencesJob()\<close>.
\<close>

definition endCollectIntelligencesJob_teardown :: "string \<Rightarrow> nat \<Rightarrow> producer \<Rightarrow> producer" where
  "endCollectIntelligencesJob_teardown uuid now p =
     startCollectIntelligencesJob uuid now (resetRunningJob p)"

text \<open>
  The callback of the job timeout. \<^verbatim>\<open>forEach\<close> changes every item of
  \<^verbatim>\<open>totalIntelligences\<close> in place, stores it under its \<^verbatim>\<open>globalId\<close> and counts it.
\<close>

definition timeoutReason :: string where
  "timeoutReason = ''collect intelligences timeout''"

fun timeoutForEach :: "nat \<Rightarrow> intelligence list \<Rightarrow> running_job \<Rightarrow> running_job" where
  "timeoutForEach now [] j = j"
| "timeoutForEach now (intelligence # rest) j =
     timeoutForEach now rest
       (j\<lparr>collectedIntelligencesDict := (collectedIntelligencesDict j)
             (coerceString (globalId intelligence) \<mapsto>
                setIntelligenceState intelligence ''TIMEOUT'' (Str timeoutReason) now),
          collectedIntelligencesNumber := collectedIntelligencesNumber j + 1\<rparr>)"

definition jobTimeoutCallback :: "nat \<Rightarrow> producer \<Rightarrow> producer" where
  "jobTimeoutCallback now p =
     (let j = (runningJob p)\<lparr>jobTimeout := True, jobTimeoutHandler := False\<rparr>;
          j1 = timeoutForEach now (totalIntelligences j) j;
          j2 = j1\<lparr>totalIntelligences :=
                    map (\<lambda>intelligence.
                           setIntelligenceState intelligence ''TIMEOUT'' (Str timeoutReason) now)
                      (totalIntelligences j1)\<rparr>
      in endCollectIntelligencesJob now (p\<lparr>runningJob := j2\<rparr>))"

text \<open>
  One result of \<^verbatim>\<open>Promise.allSettled\<close>: its status, and its \<^verbatim>\<open>value\<close> or \<^verbatim>\<open>reason\<close> when
  that is an object (\<open>None\<close> for anything that has no properties).
\<close>

datatype outcome = Fulfilled "intelligence option" | Rejected "intelligence option"

fun collectResult :: "nat \<Rightarrow> outcome \<Rightarrow> running_job \<Rightarrow> running_job" where
  "collectResult now (Fulfilled (Some intelligence)) j =
     (if truthyStr (globalId intelligence)
      then j\<lparr>collectedIntelligencesDict := (collectedIntelligencesDict j)
                (coerceString (globalId intelligence) \<mapsto>
                   setIntelligenceState intelligence ''FINISHED'' Undefined now),
             collectedIntelligencesNumber := collectedIntelligencesNumber j + 1\<rparr>
      else j)"
| "collectResult now (Rejected (Some intelligence)) j =
     (if truthyStr (globalId intelligence)
      then j\<lparr>collectedIntelligencesDict := (collectedIntelligencesDict j)
                (coerceString (globalId intelligence) \<mapsto>
                   setIntelligenceState intelligence ''FAILED'' Undefined now),
             collectedIntelligencesNumber := collectedIntelligencesNumber j + 1\<rparr>
      else j)"
| "collectResult now _ j = j"

fun collectForEach :: "nat \<Rightarrow> outcome list \<Rightarrow> running_job \<Rightarrow> running_job" where
  "collectForEach now [] j = j"
| "collectForEach now (result # rest) j = collectForEach now rest (collectResult now result j)"

text \<open>The \<^verbatim>\<open>then\<close> callback of \<^verbatim>\<open>Promise.allSettled(promises)\<close>.\<close>

definition allSettledCallback :: "outcome list \<Rightarrow> nat \<Rightarrow> producer \<Rightarrow> producer" where
  "allSettledCallback results now p =
     (if jobTimeout (runningJob p) then p
      else endCollectIntelligencesJob now
             (p\<lparr>runningJob :=
                  collectForEach now results ((runningJob p)\<lparr>jobTimeoutHandler := False\<rparr>)\<rparr>))"


section \<open>Result dispatcher\<close>

text \<open>
  \<^verbatim>\<open>sendToSOIAndDIA\<close> first sorts the intelligences into \<^verbatim>\<open>sois\<close>, an object whose keys are
  \<^verbatim>\<open>method:url\<close> in lower case; \<^verbatim>\<open>for (key in sois)\<close> visits the keys in the order of
  their insertion, so \<^verbatim>\<open>sois\<close> is an association list.
\<close>

record bucket =
  bucket_soi :: soi
  bucket_intelligences :: "intelligence list"

fun upsert :: "string \<Rightarrow> bucket \<Rightarrow> (string \<times> bucket) list \<Rightarrow> (string \<times> bucket) list" where
  "upsert key b [] = [(key, b)]"
| "upsert key b ((k, v) # rest) = (if k = key then (key, b) # rest else (k, v) # upsert key b rest)"

fun groupBySOI ::
  "constants \<Rightarrow> intelligence list \<Rightarrow> (string \<times> bucket) list \<Rightarrow> (string \<times> bucket) list"
where
  "groupBySOI K [] sois = sois"
| "groupBySOI K (intelligence # rest) sois =
     (case (baseURL (soi intelligence), callback_method (soi intelligence),
            callback_path (soi intelligence)) of
        (Some baseUrl, Some method, Some callbackPath) \<Rightarrow>
          if baseUrl = [] \<or> method = [] \<or> callbackPath = [] then groupBySOI K rest sois
          else (let url = joinURL K callbackPath baseUrl;
                    key = toLower method @ '':'' @ toLower url;
                    b = (case map_of sois key of
                           None \<Rightarrow> \<lparr>bucket_soi = soi intelligence, bucket_intelligences = []\<rparr>
                         | Some found \<Rightarrow> found)
                in groupBySOI K rest
                     (upsert key
                        (b\<lparr>bucket_intelligences := bucket_intelligences b @ [intelligence]\<rparr>)
                        sois))
      | _ \<Rightarrow> groupBySOI K rest sois)"

text \<open>
  What \<^verbatim>\<open>sendIntelligencesToSOI\<close> answers for a bucket: it resolves, or it rejects with an
  error that has a \<^verbatim>\<open>toJSON\<close> method (given by the text of
  \<^verbatim>\<open>JSON.stringify(err.toJSON())\<close>), with an error that has none, or with \<^verbatim>\<open>null\<close> or
  \<^verbatim>\<open>undefined\<close>. In the last two cases the \<^verbatim>\<open>catch\<close> block itself throws a TypeError
  (\<^verbatim>\<open>err.toJSON()\<close>, \<^verbatim>\<open>err.message\<close>), the outer \<^verbatim>\<open>catch\<close> resolves the bucket, and
  \<^verbatim>\<open>updateIntelligencesAPI\<close> is not called.
\<close>

datatype soi_reply = Delivered | FailedJSON string | FailedNoToJSON | FailedNullish

record soi_request =
  soi_request_baseURL :: "string option"
  soi_request_method :: "string option"
  soi_request_callbackPath :: "string option"
  soi_request_headers :: "(string \<times> string) list"
  soi_request_intelligences :: "intelligence list"

record dia_request =
  dia_request_baseURL :: "string option"
  dia_request_securityKey :: "string option"
  dia_request_intelligences :: "intelligence list"

text \<open>The two calls made for one bucket; the second is absent when it is not reached.\<close>

record dispatch =
  toSOI :: soi_request
  toDIA :: "dia_request option"

definition dispatchBucket ::
  "constants \<Rightarrow> configs \<Rightarrow> (string \<Rightarrow> soi_reply) \<Rightarrow> intelligence list \<Rightarrow> string \<times> bucket \<Rightarrow> dispatch"
where
  "dispatchBucket K cfgs reply intelligences kb =
     (let key = fst kb; b = snd kb;
          headers = (if truthyStr (apiKey (bucket_soi b))
                     then [(X_SECURITY_KEY_HEADER K, coerceString (apiKey (bucket_soi b)))]
                     else []);
          post = \<lparr>soi_request_baseURL = baseURL (bucket_soi b),
                  soi_request_method = callback_method (bucket_soi b),
                  soi_request_callbackPath = callback_path (bucket_soi b),
                  soi_request_headers = headers,
                  soi_request_intelligences = intelligences\<rparr>;
          put = (\<lambda>items. \<lparr>dia_request_baseURL = BITSKY_BASE_URL cfgs,
                           dia_request_securityKey = BITSKY_SECURITY_KEY cfgs,
                           dia_request_intelligences = items\<rparr>)
      in case reply key of
           Delivered \<Rightarrow> \<lparr>toSOI = post, toDIA = Some (put (bucket_intelligences b))\<rparr>
         | FailedJSON json \<Rightarrow>
             \<lparr>toSOI = post,
              toDIA = Some (put (map (\<lambda>intelligence.
                                        intelligence\<lparr>system_state := Some ''FAILED'',
                                                     system_failuresReason := Some json\<rparr>)
                                   (bucket_intelligences b)))\<rparr>
         | FailedNoToJSON \<Rightarrow> \<lparr>toSOI = post, toDIA = None\<rparr>
         | FailedNullish \<Rightarrow> \<lparr>toSOI = post, toDIA = None\<rparr>)"

text \<open>
  \<^verbatim>\<open>sendToSOIAndDIA(intelligences)\<close>: one dispatch for each bucket, in the order of the
  keys. \<open>reply\<close> gives the answer of the target system to the call made for a key. The
  calls to the target systems are all made before the first answer is handled, so each
  carries the list as it was passed in. The list is the reconciled one, in which every
  entry has a \<^verbatim>\<open>system\<close> object to write to.
\<close>

definition sendToSOIAndDIA ::
  "constants \<Rightarrow> environment \<Rightarrow> (string \<Rightarrow> soi_reply) \<Rightarrow> producer \<Rightarrow> intelligence list \<Rightarrow> dispatch list"
where
  "sendToSOIAndDIA K env reply p intelligences =
     map (dispatchBucket K (getConfigs env p) reply intelligences)
       (groupBySOI K intelligences [])"


section \<open>Config watcher\<close>

text \<open>
  What \<^verbatim>\<open>getProducerAPI\<close> answers: the remote configuration, or a rejection with an error
  object (its \<^verbatim>\<open>status\<close>, \<^verbatim>\<open>code\<close> and \<^verbatim>\<open>message\<close>, the first two possibly missing), or a
  rejection with \<^verbatim>\<open>null\<close> or \<^verbatim>\<open>undefined\<close>.
\<close>

record api_error =
  err_status :: "int option"
  err_code :: "string option"
  err_message :: "string option"

datatype producer_reply = Configuration producer_config | Failed api_error | FailedWithNullish

datatype exception = TypeError | Error string

text \<open>String coercion of the producer's type, in a template literal and in \<^verbatim>\<open>_.toUpper\<close>.\<close>

definition typeString :: "type_object jsval \<Rightarrow> string" where
  "typeString t =
     (case t of
        Undefined \<Rightarrow> ''undefined''
      | Null \<Rightarrow> ''null''
      | Bool b \<Rightarrow> (if b then ''true'' else ''false'')
      | Num n \<Rightarrow> showInt n
      | Str s \<Rightarrow> s
      | Obj (StringObject s) \<Rightarrow> s
      | Obj OtherObject \<Rightarrow> ''[object Object]'')"

definition lodashToString :: "type_object jsval \<Rightarrow> string" where
  "lodashToString t = (case t of Undefined \<Rightarrow> [] | Null \<Rightarrow> [] | _ \<Rightarrow> typeString t)"

text \<open>\<^verbatim>\<open>_.merge({}, constants.DEFAULT_AGENT_CONFIGURATION, producer)\<close>.\<close>

definition mergeProducerConfig :: "producer_config \<Rightarrow> producer_config \<Rightarrow> producer_config" where
  "mergeProducerConfig dflt remote =
     \<lparr>cfg_globalId = mergeField (cfg_globalId dflt) (cfg_globalId remote),
      cfg_type = mergeField (cfg_type dflt) (cfg_type remote),
      cfg_system_version = mergeField (cfg_system_version dflt) (cfg_system_version remote),
      cfg_system_state = mergeField (cfg_system_state dflt) (cfg_system_state remote),
      cfg_pollingInterval = mergeField (cfg_pollingInterval dflt) (cfg_pollingInterval remote)\<rparr>"

text \<open>The message chosen for an error with a truthy status.\<close>

definition producerErrorMessage :: "configs \<Rightarrow> type_object jsval \<Rightarrow> int \<Rightarrow> string option \<Rightarrow> string" where
  "producerErrorMessage cfgs t status code =
     (if status = 404 then
        ''Cannot find any producer by '' @ coerceString (GLOBAL_ID cfgs)
          @ ''. Please check your GLOBAL_ID''
      else if status = 401 then
        ''Please pass correct BITSKY_SECURITY_KEY. '' @ coerceString (BITSKY_SECURITY_KEY cfgs)
          @ '' is invalid''
      else if status \<ge> 500 then ''Internal server error''
      else if status = 403 then
        ''The producer you want connect to was already connected by other producer instance. You need to disconnect it before you can connect or change another producer to connect''
      else if status \<ge> 400 \<and> code = Some ''00144000002'' then
        ''Please set PRODUCER_SERIAL_ID, this is required''
      else if status \<ge> 400 \<and> code = Some ''00144000004'' then
        ''The producer's type you are trying to connect isn't '' @ typeString t
          @ '', please change Producer Global ID which its type is '' @ typeString t
      else if status \<ge> 400 then
        ''Please check GLOBAL ID, PRODUCER_SERIAL_ID or BITSKY_SECURITY_KEY, some fileds isn't correct''
      else ''Internal server error'')"

text \<open>
  \<^verbatim>\<open>getProducerConfiguration\<close>, with the answer of \<^verbatim>\<open>getProducerAPI\<close> as an argument. The
  result is what the function returns (\<open>None\<close> is \<^verbatim>\<open>undefined\<close>) or what it throws. The
  \<^verbatim>\<open>catch\<close> block reads \<^verbatim>\<open>err.message\<close> for the log, and for an error without a truthy
  status it assigns \<^verbatim>\<open>this.__producerError.message\<close> without creating the object
  (\<open>assignInternalServerError\<close>).
\<close>

definition assignInternalServerError :: "producer \<Rightarrow> (exception + producer_config option) \<times> producer" where
  "assignInternalServerError p =
     (case producerError p of
        None \<Rightarrow> (Inl TypeError, p)
      | Some e \<Rightarrow>
          (Inr None, p\<lparr>producerError := Some (e\<lparr>pe_message := Some ''Internal server error''\<rparr>)\<rparr>))"

definition getProducerConfiguration ::
  "constants \<Rightarrow> environment \<Rightarrow> producer_reply \<Rightarrow> producer
     \<Rightarrow> (exception + producer_config option) \<times> producer"
where
  "getProducerConfiguration K env reply p =
     (let cfgs = getConfigs env p
      in if \<not> truthyStr (BITSKY_BASE_URL cfgs) \<or> \<not> truthyStr (GLOBAL_ID cfgs)
         then (Inr None,
               p\<lparr>producerError :=
                    Some \<lparr>pe_error = False, pe_status = 400, pe_code = None,
                          pe_message = Some ''GLOBAL_ID and BITSKY_BASE_URL is required''\<rparr>\<rparr>)
         else (case reply of
                 Configuration remote \<Rightarrow>
                   (Inr (Some (mergeProducerConfig (DEFAULT_AGENT_CONFIGURATION K) remote)),
                    p\<lparr>producerError := None\<rparr>)
               | FailedWithNullish \<Rightarrow> (Inl TypeError, p)
               | Failed err \<Rightarrow>
                   (case err_status err of
                      None \<Rightarrow> assignInternalServerError p
                    | Some status \<Rightarrow>
                        if status = 0 then assignInternalServerError p
                        else (Inr None,
                              p\<lparr>producerError :=
                                   Some \<lparr>pe_error = True, pe_status = status,
                                         pe_code = err_code err,
                                         pe_message =
                                           Some (producerErrorMessage cfgs (ptype p) status
                                                   (err_code err))\<rparr>\<rparr>))))"

text \<open>
  \<^verbatim>\<open>endPollingGetIntelligences\<close> up to its \<^verbatim>\<open>await\<close>: the interval is cleared and
  \<^verbatim>\<open>endCollectIntelligencesJob\<close> is entered. \<^verbatim>\<open>startPollingGetIntelligences\<close> begins with
  the same block and sets the new interval once that call has returned.
\<close>

definition endPollingGetIntelligences :: "nat \<Rightarrow> producer \<Rightarrow> producer" where
  "endPollingGetIntelligences now p =
     endCollectIntelligencesJob now (p\<lparr>watchIntelligencesIntervalHandler := None\<rparr>)"

definition startPollingGetIntelligences_interval :: "constants \<Rightarrow> producer \<Rightarrow> producer" where
  "startPollingGetIntelligences_interval K p =
     (case currentProducerConfig p of
        None \<Rightarrow> p
      | Some producerConfigs \<Rightarrow>
          (let pollingInterval =
                 (if truthyNum (cfg_pollingInterval producerConfigs)
                  then cfg_pollingInterval producerConfigs
                  else cfg_pollingInterval (DEFAULT_AGENT_CONFIGURATION K))
           in p\<lparr>watchIntelligencesIntervalHandler :=
                  Some ((case pollingInterval of None \<Rightarrow> 0 | Some n \<Rightarrow> n) * 1000)\<rparr>))"

text \<open>
  \<^verbatim>\<open>compareProducerConfiguration\<close>, from the answer of the remote fetch to the first
  \<^verbatim>\<open>await\<close> after it. The second component tells which of
  \<^verbatim>\<open>endPollingGetIntelligences\<close> and \<^verbatim>\<open>startPollingGetIntelligences\<close> was called, if any.
  An exception of \<^verbatim>\<open>getProducerConfiguration\<close> is caught and logged.
\<close>

datatype watch_action = NoAction | EndPolling | StartPolling

definition compareProducerConfiguration ::
  "constants \<Rightarrow> environment \<Rightarrow> producer_reply \<Rightarrow> nat \<Rightarrow> producer \<Rightarrow> producer \<times> watch_action"
where
  "compareProducerConfiguration K env reply now p =
     (case getProducerConfiguration K env reply p of
        (Inl err, p1) \<Rightarrow> (p1, NoAction)
      | (Inr config, p1) \<Rightarrow>
          if Option.bind config cfg_globalId
               \<noteq> Option.bind (currentProducerConfig p1) cfg_globalId
             \<or> Option.bind config cfg_system_version
               \<noteq> Option.bind (currentProducerConfig p1) cfg_system_version
          then (let cfgs = getConfigs env p1;
                    p2 = p1\<lparr>currentProducerConfig := config\<rparr>
                in if \<not> truthyStr (BITSKY_BASE_URL cfgs)
                      \<or> \<not> truthyStr (Option.bind config cfg_type)
                      \<or> \<not> truthyStr (Option.bind config cfg_globalId)
                      \<or> toUpper (case Option.bind config cfg_type of None \<Rightarrow> [] | Some t \<Rightarrow> t)
                           \<noteq> toUpper (lodashToString (ptype p2))
                      \<or> toUpper (case Option.bind config cfg_system_state of
                                    None \<Rightarrow> [] | Some st \<Rightarrow> st)
                           \<noteq> toUpper (AGENT_STATE_active K)
                   then (endPollingGetIntelligences now p2, EndPolling)
                   else (endPollingGetIntelligences now p2, StartPolling))
          else (p1, NoAction))"


section \<open>Producer facade\<close>

text \<open>
  \<^verbatim>\<open>type(type)\<close>: the result is the current type or \<^verbatim>\<open>this\<close>. A primitive is never an
  instance of \<^verbatim>\<open>String\<close>.
\<close>

datatype type_result = CurrentType "type_object jsval" | This

definition instanceofString :: "type_object jsval \<Rightarrow> bool" where
  "instanceofString t = (case t of Obj (StringObject s) \<Rightarrow> True | _ \<Rightarrow> False)"

definition type_accessor ::
  "type_object jsval \<Rightarrow> producer \<Rightarrow> (exception + type_result) \<times> producer"
where
  "type_accessor t p =
     (if \<not> truthy t then (Inr (CurrentType (ptype p)), p)
      else if \<not> instanceofString t \<and> \<not> truthy t
      then (Inl (Error (typeString t @ '' isn't valid, you must pass a not empty string'')), p)
      else (Inr This, p\<lparr>ptype := t\<rparr>))"


section \<open>Example values\<close>

text \<open>Concrete values used to run the definitions.\<close>

definition exampleConstants :: constants where
  "exampleConstants =
     \<lparr>SERVICE_AGENT_TYPE = ''SERVICE'',
      DEFAULT_AGENT_CONFIGURATION =
        \<lparr>cfg_globalId = None, cfg_type = None, cfg_system_version = None,
         cfg_system_state = None, cfg_pollingInterval = Some 30\<rparr>,
      AGENT_STATE_active = ''ACTIVE'',
      X_SECURITY_KEY_HEADER = ''x-bitsky-security-key'',
      joinURL = (\<lambda>path base. base @ path)\<rparr>"

definition exampleProducer :: producer where
  "exampleProducer = Producer exampleConstants Undefined"

definition exampleConfigs :: configs where
  "exampleConfigs =
     \<lparr>BITSKY_BASE_URL = Some ''http://localhost:9099'', BITSKY_SECURITY_KEY = None,
      GLOBAL_ID = Some ''producer-1'', PRODUCER_SERIAL_ID = None\<rparr>"

definition exampleEnvironment :: environment where
  "exampleEnvironment =
     \<lparr>process_env = exampleConfigs, preferences_PRODUCER_SERIAL_ID = ''serial-1''\<rparr>"

definition exampleIntelligence1 :: intelligence where
  "exampleIntelligence1 =
     \<lparr>globalId = Some ''i1'',
      soi = \<lparr>baseURL = Some ''http://s1'', callback_method = Some ''POST'',
             callback_path = Some ''/cb'', apiKey = Some ''key-1''\<rparr>,
      system_state = None, system_failuresReason = None, system_producer_endedAt = None,
      dataset = Undefined\<rparr>"

definition exampleIntelligence2 :: intelligence where
  "exampleIntelligence2 =
     \<lparr>globalId = Some ''i2'',
      soi = \<lparr>baseURL = Some ''http://s2'', callback_method = Some ''POST'',
             callback_path = Some ''/cb'', apiKey = None\<rparr>,
      system_state = None, system_failuresReason = None, system_producer_endedAt = None,
      dataset = Undefined\<rparr>"

text \<open>
  A producer in the middle of a job: the job loop ticked, two intelligences were received
  and handed to the worker, and the timeout is armed.
\<close>

definition exampleRunningProducer :: producer where
  "exampleRunningProducer =
     startCollectIntelligencesJob_dispatched [exampleIntelligence1, exampleIntelligence2]
       (startCollectIntelligencesJob_received [exampleIntelligence1, exampleIntelligence2]
          (pollingTick ''job-1'' 1000 exampleProducer))"

definition exampleRemote :: producer_config where
  "exampleRemote =
     \<lparr>cfg_globalId = Some ''producer-1'', cfg_type = Some ''service'',
      cfg_system_version = Some ''1.0.0'', cfg_system_state = Some ''ACTIVE'',
      cfg_pollingInterval = None\<rparr>"


definition exampleDelivered :: "string \<Rightarrow> soi_reply" where
  "exampleDelivered key = Delivered"


text \<open>
  A schedule with a change of the remote configuration in the middle of a job. The
  watcher adopts the first configuration and the job loop starts; a tick admits job-1,
  which waits for its intelligences; the watcher sees a new version and ends job-1, whose
  teardown admits job-2, which also waits; then the intelligences asked for by job-1
  arrive and are handed to the worker, and then those asked for by job-2.
\<close>

definition exampleWatched :: producer where
  "exampleWatched =
     startPollingGetIntelligences_interval exampleConstants
       (fst (compareProducerConfiguration exampleConstants exampleEnvironment
               (Configuration exampleRemote) 1000 exampleProducer))"

definition exampleFirstFlow :: producer where
  "exampleFirstFlow = pollingTick ''job-1'' 2000 exampleWatched"

definition exampleEndedByWatcher :: producer where
  "exampleEndedByWatcher =
     fst (compareProducerConfiguration exampleConstants exampleEnvironment
            (Configuration (exampleRemote\<lparr>cfg_system_version := Some ''1.0.1''\<rparr>)) 3000
            exampleFirstFlow)"

definition exampleSecondFlow :: producer where
  "exampleSecondFlow =
     startPollingGetIntelligences_interval exampleConstants
       (endCollectIntelligencesJob_teardown ''job-2'' 3100 exampleEndedByWatcher)"

definition exampleFirstFlowResumed :: producer where
  "exampleFirstFlowResumed =
     startCollectIntelligencesJob_dispatched [exampleIntelligence1]
       (startCollectIntelligencesJob_received [exampleIntelligence1] exampleSecondFlow)"

definition exampleSecondFlowResumed :: producer where
  "exampleSecondFlowResumed =
     startCollectIntelligencesJob_received [exampleIntelligence2] exampleFirstFlowResumed"







section \<open>Properties\<close>

subsection \<open>Auxiliary facts\<close>

lemmas example_defs = exampleRunningProducer_def exampleProducer_def Producer_def
  exampleConstants_def exampleIntelligence1_def exampleIntelligence2_def
  exampleEnvironment_def exampleConfigs_def setConfigs_def

lemma exampleProducer_idle: "runningJob exampleProducer = idleJob"
  by (simp add: exampleProducer_def Producer_def setConfigs_def)

lemma exampleRunningProducer_job:
  "runningJob exampleRunningProducer =
     idleJob\<lparr>totalIntelligences := [exampleIntelligence1, exampleIntelligence2],
             jobId := Some ''job-1'', startTime := 1000, lockJob := True,
             jobTimeoutHandler := True\<rparr>"
  by (simp add: exampleRunningProducer_def exampleProducer_def Producer_def setConfigs_def
      startCollectIntelligencesJob_dispatched_def startCollectIntelligencesJob_received_def
      pollingTick_def startCollectIntelligencesJob_def initRunningJob_def resetRunningJob_def
      idleJob_def truthyStr_def)

text \<open>The state names are already in upper case; the fixed reasons are not empty.\<close>

lemma toUpper_states:
  "toUpper ''FAILED'' = ''FAILED''" "toUpper ''FINISHED'' = ''FINISHED''"
  "toUpper ''TIMEOUT'' = ''TIMEOUT''"
  by (simp_all add: toUpper_def toUpperChar_def)

lemma setIntelligenceState_state:
  "system_state (setIntelligenceState x st r now) = Some (toUpper st)"
  by (simp add: setIntelligenceState_def Let_def)


lemma setIntelligenceState_reason:
  "system_failuresReason (setIntelligenceState x st r now)
     = (if truthy r then Some (reasonStr r) else system_failuresReason x)"
  by (simp add: setIntelligenceState_def Let_def)






lemma dictionaryLookup_own: "d key = Some y \<Longrightarrow> dictionaryLookup d key = Some y"
  by (simp add: dictionaryLookup_def)


text \<open>The loops over items and over outcomes touch the dictionary and the counter only.\<close>

lemma timeoutForEach_frame:
  "lockJob (timeoutForEach now xs j) = lockJob j \<and> jobId (timeoutForEach now xs j) = jobId j
   \<and> jobTimeout (timeoutForEach now xs j) = jobTimeout j
   \<and> endingCollectIntelligencesJob (timeoutForEach now xs j) = endingCollectIntelligencesJob j
   \<and> totalIntelligences (timeoutForEach now xs j) = totalIntelligences j"
  by (induction xs arbitrary: j) simp_all

lemma collectResult_frame:
  "lockJob (collectResult now r j) = lockJob j \<and> jobId (collectResult now r j) = jobId j
   \<and> jobTimeout (collectResult now r j) = jobTimeout j
   \<and> endingCollectIntelligencesJob (collectResult now r j) = endingCollectIntelligencesJob j
   \<and> totalIntelligences (collectResult now r j) = totalIntelligences j"
  by (cases "(now, r, j)" rule: collectResult.cases) simp_all

lemma collectForEach_frame:
  "lockJob (collectForEach now rs j) = lockJob j \<and> jobId (collectForEach now rs j) = jobId j
   \<and> jobTimeout (collectForEach now rs j) = jobTimeout j
   \<and> endingCollectIntelligencesJob (collectForEach now rs j) = endingCollectIntelligencesJob j
   \<and> totalIntelligences (collectForEach now rs j) = totalIntelligences j"
  by (induction rs arbitrary: j) (simp_all add: collectResult_frame)

lemma endCollect_lockJob:
  "lockJob (runningJob (endCollectIntelligencesJob now p)) = lockJob (runningJob p)"
  by (simp add: endCollectIntelligencesJob_def Let_def)

lemma endCollect_dict:
  "collectedIntelligencesDict (runningJob (endCollectIntelligencesJob now p))
     = collectedIntelligencesDict (runningJob p)"
  by (simp add: endCollectIntelligencesJob_def Let_def)


text \<open>An outcome writes under its own \<^verbatim>\<open>globalId\<close> only.\<close>

lemma collectForEach_append:
  "collectForEach now (a @ b) j = collectForEach now b (collectForEach now a j)"
  by (induction a arbitrary: j) simp_all

lemma collectResult_other_key:
  assumes "\<forall>y. r = Fulfilled (Some y) \<or> r = Rejected (Some y) \<longrightarrow> globalId y \<noteq> Some g"
  shows "collectedIntelligencesDict (collectResult now r j) g = collectedIntelligencesDict j g"
  using assms
  by (cases "(now, r, j)" rule: collectResult.cases)
     (auto simp add: truthyStr_def coerceString_def split: option.splits)

lemma collectForEach_other_keys:
  assumes "\<forall>y. Fulfilled (Some y) \<in> set rs \<or> Rejected (Some y) \<in> set rs \<longrightarrow> globalId y \<noteq> Some g"
  shows "collectedIntelligencesDict (collectForEach now rs j) g = collectedIntelligencesDict j g"
  using assms
proof (induction rs arbitrary: j)
  case Nil
  then show ?case by simp
next
  case (Cons r rs)
  have "collectedIntelligencesDict (collectForEach now rs (collectResult now r j)) g
      = collectedIntelligencesDict (collectResult now r j) g"
    using Cons.prems by (intro Cons.IH) auto
  also have "\<dots> = collectedIntelligencesDict j g"
    using Cons.prems by (intro collectResult_other_key) auto
  finally show ?case by simp
qed

text \<open>The watcher: what a tick leaves alone, and the tick that finds nothing new.\<close>

lemma endPolling_frame:
  "currentProducerConfig (endPollingGetIntelligences now p) = currentProducerConfig p \<and>
   producerError (endPollingGetIntelligences now p) = producerError p \<and>
   manuallySetConfigs (endPollingGetIntelligences now p) = manuallySetConfigs p \<and>
   ptype (endPollingGetIntelligences now p) = ptype p"
  by (simp add: endPollingGetIntelligences_def endCollectIntelligencesJob_def Let_def)

lemma getConfigs_cong:
  "manuallySetConfigs p = manuallySetConfigs q \<Longrightarrow> getConfigs env p = getConfigs env q"
  by (simp add: getConfigs_def)

lemma compare_unchanged:
  assumes "truthyStr (BITSKY_BASE_URL (getConfigs env p))"
    and "truthyStr (GLOBAL_ID (getConfigs env p))"
    and "cfg_globalId (mergeProducerConfig (DEFAULT_AGENT_CONFIGURATION K) remote)
           = Option.bind (currentProducerConfig p) cfg_globalId"
    and "cfg_system_version (mergeProducerConfig (DEFAULT_AGENT_CONFIGURATION K) remote)
           = Option.bind (currentProducerConfig p) cfg_system_version"
  shows "compareProducerConfiguration K env (Configuration remote) now p
           = (p\<lparr>producerError := None\<rparr>, NoAction)"
  using assms
  by (simp add: compareProducerConfiguration_def getProducerConfiguration_def Let_def)

lemma compare_snapshot:
  assumes "truthyStr (BITSKY_BASE_URL (getConfigs env p))"
    and "truthyStr (GLOBAL_ID (getConfigs env p))"
  shows "Option.bind (currentProducerConfig (fst (compareProducerConfiguration K env (Configuration remote) now p))) cfg_globalId
           = cfg_globalId (mergeProducerConfig (DEFAULT_AGENT_CONFIGURATION K) remote) \<and>
         Option.bind (currentProducerConfig (fst (compareProducerConfiguration K env (Configuration remote) now p))) cfg_system_version
           = cfg_system_version (mergeProducerConfig (DEFAULT_AGENT_CONFIGURATION K) remote) \<and>
         producerError (fst (compareProducerConfiguration K env (Configuration remote) now p)) = None \<and>
         manuallySetConfigs (fst (compareProducerConfiguration K env (Configuration remote) now p)) = manuallySetConfigs p"
  using assms
  by (simp add: compareProducerConfiguration_def getProducerConfiguration_def Let_def endPolling_frame)

lemma compare_missing_configs:
  assumes "\<not> truthyStr (BITSKY_BASE_URL (getConfigs env p)) \<or> \<not> truthyStr (GLOBAL_ID (getConfigs env p))"
  shows "manuallySetConfigs (fst (compareProducerConfiguration K env reply now p)) = manuallySetConfigs p \<and>
     producerError (fst (compareProducerConfiguration K env reply now p))
       = Some \<lparr>pe_error = False, pe_status = 400, pe_code = None,
                pe_message = Some ''GLOBAL_ID and BITSKY_BASE_URL is required''\<rparr> \<and>
     Option.bind (currentProducerConfig (fst (compareProducerConfiguration K env reply now p))) cfg_globalId = None \<and>
     Option.bind (currentProducerConfig (fst (compareProducerConfiguration K env reply now p))) cfg_system_version = None"
  using assms
  by (auto simp add: compareProducerConfiguration_def getProducerConfiguration_def Let_def endPolling_frame)

lemma compare_missing_unchanged:
  assumes "\<not> truthyStr (BITSKY_BASE_URL (getConfigs env p)) \<or> \<not> truthyStr (GLOBAL_ID (getConfigs env p))"
    and "producerError p = Some \<lparr>pe_error = False, pe_status = 400, pe_code = None,
                pe_message = Some ''GLOBAL_ID and BITSKY_BASE_URL is required''\<rparr>"
    and "Option.bind (currentProducerConfig p) cfg_globalId = None"
    and "Option.bind (currentProducerConfig p) cfg_system_version = None"
  shows "compareProducerConfiguration K env reply now p = (p, NoAction)"
proof -
  have "p\<lparr>producerError := Some \<lparr>pe_error = False, pe_status = 400, pe_code = None,
                pe_message = Some ''GLOBAL_ID and BITSKY_BASE_URL is required''\<rparr>\<rparr> = p"
    using assms(2) by (cases p) simp
  then show ?thesis
    using assms
    by (auto simp add: compareProducerConfiguration_def getProducerConfiguration_def Let_def)
qed

lemma producerError_None_id: "producerError p = None \<Longrightarrow> p\<lparr>producerError := None\<rparr> = p"
  by (cases p) simp




subsection \<open>Single job at a time\<close>

text \<open>
  The guards of admission. While the running job has a jobId, or lockJob, or the ending
  flag, \<^verbatim>\<open>startCollectIntelligencesJob\<close> returns with the producer as it was; whenever it
  changes anything it is by \<^verbatim>\<open>initRunningJob\<close>, and no other block turns \<^verbatim>\<open>lockJob\<close> on.
\<close>

lemma admission_guards:
  "(truthyStr (jobId (runningJob p)) \<or> lockJob (runningJob p)
      \<or> endingCollectIntelligencesJob (runningJob p)
    \<longrightarrow> startCollectIntelligencesJob uuid now p = p) \<and>
   (truthyStr (jobId (runningJob p)) \<or> lockJob (runningJob p)
    \<longrightarrow> pollingTick uuid now p = p) \<and>
   (\<not> truthyStr (jobId (runningJob p)) \<and> \<not> lockJob (runningJob p)
    \<longrightarrow> pollingTick uuid now p = startCollectIntelligencesJob uuid now p) \<and>
   (startCollectIntelligencesJob uuid now p \<noteq> p
    \<longrightarrow> startCollectIntelligencesJob uuid now p = initRunningJob None uuid now p) \<and>
   runningJob (initRunningJob None uuid now p)
     = idleJob\<lparr>jobId := Some uuid, startTime := now, lockJob := True\<rparr> \<and>
   endCollectIntelligencesJob_teardown uuid now p
     = initRunningJob None uuid now (resetRunningJob p) \<and>
   (lockJob (runningJob (endCollectIntelligencesJob now p)) \<longrightarrow> lockJob (runningJob p)) \<and>
   (lockJob (runningJob (jobTimeoutCallback now p)) \<longrightarrow> lockJob (runningJob p)) \<and>
   (lockJob (runningJob (allSettledCallback results now p)) \<longrightarrow> lockJob (runningJob p)) \<and>
   (lockJob (runningJob (startCollectIntelligencesJob_received xs p))
    \<longrightarrow> lockJob (runningJob p)) \<and>
   (lockJob (runningJob (startCollectIntelligencesJob_dispatched xs p))
    \<longrightarrow> lockJob (runningJob p))"
proof -
  have a: "lockJob (runningJob (jobTimeoutCallback now p)) = lockJob (runningJob p)"
    by (simp add: jobTimeoutCallback_def Let_def endCollect_lockJob timeoutForEach_frame)
  have b: "lockJob (runningJob (allSettledCallback results now p)) = lockJob (runningJob p)"
    by (simp add: allSettledCallback_def endCollect_lockJob collectForEach_frame)
  have c: "lockJob (runningJob (startCollectIntelligencesJob_dispatched xs p))
      \<longrightarrow> lockJob (runningJob p)"
    by (simp add: startCollectIntelligencesJob_dispatched_def resetRunningJob_def idleJob_def)
  have d: "lockJob (runningJob (startCollectIntelligencesJob_received xs p))
      = lockJob (runningJob p)"
    by (simp add: startCollectIntelligencesJob_received_def)
  have e: "runningJob (initRunningJob None uuid now p)
     = idleJob\<lparr>jobId := Some uuid, startTime := now, lockJob := True\<rparr>"
    by (simp add: initRunningJob_def resetRunningJob_def idleJob_def)
  have f: "endCollectIntelligencesJob_teardown uuid now p
     = initRunningJob None uuid now (resetRunningJob p)"
    by (simp add: endCollectIntelligencesJob_teardown_def startCollectIntelligencesJob_def
        resetRunningJob_def idleJob_def truthyStr_def)
  show ?thesis
    using a b c d e f
    by (simp add: startCollectIntelligencesJob_def pollingTick_def endCollect_lockJob)
qed


text \<open>
  The states of the schedule in which the configuration changes while job-1 waits for
  its intelligences.
\<close>

lemma exampleProducer_eq:
  "exampleProducer =
     \<lparr>ptype = Str ''SERVICE'', producerError = None, ranJobNumber = 0,
      currentProducerConfig = None, watchIntelligencesIntervalHandler = None,
      runningJob = idleJob,
      manuallySetConfigs =
        \<lparr>BITSKY_BASE_URL = None, BITSKY_SECURITY_KEY = None, GLOBAL_ID = None,
         PRODUCER_SERIAL_ID = None\<rparr>\<rparr>"
  by (simp add: exampleProducer_def Producer_def setConfigs_def exampleConstants_def)

lemma exampleEnvironment_configs:
  "getConfigs exampleEnvironment
     (p\<lparr>manuallySetConfigs :=
          \<lparr>BITSKY_BASE_URL = None, BITSKY_SECURITY_KEY = None, GLOBAL_ID = None,
           PRODUCER_SERIAL_ID = None\<rparr>\<rparr>)
   = \<lparr>BITSKY_BASE_URL = Some ''http://localhost:9099'', BITSKY_SECURITY_KEY = None,
      GLOBAL_ID = Some ''producer-1'', PRODUCER_SERIAL_ID = Some ''serial-1''\<rparr>"
  by (simp add: getConfigs_def mergeField_def truthyStr_def exampleEnvironment_def
      exampleConfigs_def)

lemma exampleWatched_eq:
  "exampleWatched =
     exampleProducer
       \<lparr>currentProducerConfig :=
          Some \<lparr>cfg_globalId = Some ''producer-1'', cfg_type = Some ''service'',
                cfg_system_version = Some ''1.0.0'', cfg_system_state = Some ''ACTIVE'',
                cfg_pollingInterval = Some 30\<rparr>,
        watchIntelligencesIntervalHandler := Some 30000\<rparr>"
  by (simp add: exampleWatched_def exampleProducer_eq compareProducerConfiguration_def
      getProducerConfiguration_def Let_def getConfigs_def mergeField_def truthyStr_def
      truthyNum_def mergeProducerConfig_def exampleRemote_def exampleConstants_def
      exampleEnvironment_def exampleConfigs_def toUpper_def toUpperChar_def
      lodashToString_def typeString_def endPollingGetIntelligences_def
      endCollectIntelligencesJob_def idleJob_def startPollingGetIntelligences_interval_def)


lemma exampleFirstFlow_eq:
  "exampleFirstFlow =
     exampleWatched
       \<lparr>runningJob := idleJob\<lparr>jobId := Some ''job-1'', startTime := 2000, lockJob := True\<rparr>\<rparr>"
  by (simp add: exampleFirstFlow_def exampleWatched_eq exampleProducer_eq pollingTick_def
      startCollectIntelligencesJob_def initRunningJob_def resetRunningJob_def idleJob_def
      truthyStr_def)

lemma exampleEndedByWatcher_tick:
  "compareProducerConfiguration exampleConstants exampleEnvironment
     (Configuration (exampleRemote\<lparr>cfg_system_version := Some ''1.0.1''\<rparr>)) 3000
     exampleFirstFlow
   = (exampleProducer
        \<lparr>currentProducerConfig :=
           Some \<lparr>cfg_globalId = Some ''producer-1'', cfg_type = Some ''service'',
                 cfg_system_version = Some ''1.0.1'', cfg_system_state = Some ''ACTIVE'',
                 cfg_pollingInterval = Some 30\<rparr>,
         watchIntelligencesIntervalHandler := None,
         runningJob :=
           idleJob\<lparr>jobId := Some ''job-1'', startTime := 2000, lockJob := True,
                   endingCollectIntelligencesJob := True\<rparr>\<rparr>,
      StartPolling)"
  by (simp add: exampleFirstFlow_eq exampleWatched_eq exampleProducer_eq
      compareProducerConfiguration_def
      getProducerConfiguration_def Let_def getConfigs_def mergeField_def truthyStr_def
      truthyNum_def mergeProducerConfig_def exampleRemote_def exampleConstants_def
      exampleEnvironment_def exampleConfigs_def toUpper_def toUpperChar_def
      lodashToString_def typeString_def endPollingGetIntelligences_def
      endCollectIntelligencesJob_def idleJob_def)

lemma exampleSecondFlow_eq:
  "exampleSecondFlow =
     exampleProducer
        \<lparr>currentProducerConfig :=
           Some \<lparr>cfg_globalId = Some ''producer-1'', cfg_type = Some ''service'',
                 cfg_system_version = Some ''1.0.1'', cfg_system_state = Some ''ACTIVE'',
                 cfg_pollingInterval = Some 30\<rparr>,
         watchIntelligencesIntervalHandler := Some 30000,
         runningJob := idleJob\<lparr>jobId := Some ''job-2'', startTime := 3100, lockJob := True\<rparr>\<rparr>"
  by (simp add: exampleSecondFlow_def exampleEndedByWatcher_def exampleEndedByWatcher_tick
      exampleProducer_eq endCollectIntelligencesJob_teardown_def
      startCollectIntelligencesJob_def initRunningJob_def resetRunningJob_def idleJob_def
      truthyStr_def truthyNum_def startPollingGetIntelligences_interval_def Let_def)

lemma exampleFirstFlowResumed_eq:
  "exampleFirstFlowResumed =
     exampleSecondFlow
        \<lparr>ranJobNumber := 1,
         runningJob :=
           idleJob\<lparr>jobId := Some ''job-2'', startTime := 3100, lockJob := True,
                   totalIntelligences := [exampleIntelligence1],
                   jobTimeoutHandler := True\<rparr>\<rparr>"
  by (simp add: exampleFirstFlowResumed_def exampleSecondFlow_eq exampleProducer_eq
      startCollectIntelligencesJob_dispatched_def startCollectIntelligencesJob_received_def
      idleJob_def)

lemma exampleSecondFlowResumed_eq:
  "exampleSecondFlowResumed =
     exampleSecondFlow
        \<lparr>ranJobNumber := 2,
         runningJob :=
           idleJob\<lparr>jobId := Some ''job-2'', startTime := 3100, lockJob := True,
                   totalIntelligences := [exampleIntelligence2],
                   jobTimeoutHandler := True\<rparr>\<rparr>"
  by (simp add: exampleSecondFlowResumed_def exampleFirstFlowResumed_eq exampleSecondFlow_eq
      exampleProducer_eq startCollectIntelligencesJob_received_def idleJob_def)

text \<open>
  C1. The code at the schedule that shows the defect. A tick admits job-1, which waits
  for its intelligences. The watcher sees a new version of the configuration and ends
  job-1; nothing is reported, and the teardown admits job-2 on the same running job,
  which waits as well. The continuation of job-1 then runs without testing the record:
  the batch of job-1 is handed to the worker under the jobId of job-2 and a timeout is
  armed. The continuation of job-2 follows: it hands its own batch to the worker under
  the same jobId, counts a second job and replaces the batch of the first. Two job flows
  are active on the one running job.
\<close>

theorem two_job_flows_on_one_record:
  "jobId (runningJob exampleFirstFlow) = Some ''job-1'' \<and>
   lockJob (runningJob exampleFirstFlow) \<and>
   snd (compareProducerConfiguration exampleConstants exampleEnvironment
          (Configuration (exampleRemote\<lparr>cfg_system_version := Some ''1.0.1''\<rparr>)) 3000
          exampleFirstFlow) = StartPolling \<and>
   endingCollectIntelligencesJob (runningJob exampleEndedByWatcher) \<and>
   sendToSOIAndDIA exampleConstants exampleEnvironment exampleDelivered exampleEndedByWatcher
     (totalIntelligences (runningJob exampleEndedByWatcher)) = [] \<and>
   jobId (runningJob exampleSecondFlow) = Some ''job-2'' \<and>
   lockJob (runningJob exampleSecondFlow) \<and>
   call_intelligences
     (startCollectIntelligencesJob_workerCall [exampleIntelligence1] exampleSecondFlow)
     = [exampleIntelligence1] \<and>
   call_jobId
     (startCollectIntelligencesJob_workerCall [exampleIntelligence1] exampleSecondFlow)
     = Some ''job-2'' \<and>
   jobTimeoutHandler (runningJob exampleFirstFlowResumed) \<and>
   \<not> endingCollectIntelligencesJob (runningJob exampleFirstFlowResumed) \<and>
   call_intelligences
     (startCollectIntelligencesJob_workerCall [exampleIntelligence2] exampleFirstFlowResumed)
     = [exampleIntelligence2] \<and>
   call_jobId
     (startCollectIntelligencesJob_workerCall [exampleIntelligence2] exampleFirstFlowResumed)
     = Some ''job-2'' \<and>
   ranJobNumber exampleSecondFlowResumed = 2 \<and>
   totalIntelligences (runningJob exampleSecondFlowResumed) = [exampleIntelligence2]"
proof -
  have first: "jobId (runningJob exampleFirstFlow) = Some ''job-1''
      \<and> lockJob (runningJob exampleFirstFlow)"
    by (simp add: exampleFirstFlow_eq idleJob_def)
  have watcher: "snd (compareProducerConfiguration exampleConstants exampleEnvironment
          (Configuration (exampleRemote\<lparr>cfg_system_version := Some ''1.0.1''\<rparr>)) 3000
          exampleFirstFlow) = StartPolling"
    by (simp add: exampleEndedByWatcher_tick)
  have ended: "endingCollectIntelligencesJob (runningJob exampleEndedByWatcher)
      \<and> totalIntelligences (runningJob exampleEndedByWatcher) = []"
    by (simp add: exampleEndedByWatcher_def exampleEndedByWatcher_tick idleJob_def)
  have report: "sendToSOIAndDIA exampleConstants exampleEnvironment exampleDelivered
      exampleEndedByWatcher (totalIntelligences (runningJob exampleEndedByWatcher)) = []"
    by (simp add: ended sendToSOIAndDIA_def)
  have second: "jobId (runningJob exampleSecondFlow) = Some ''job-2''
      \<and> lockJob (runningJob exampleSecondFlow)"
    by (simp add: exampleSecondFlow_eq idleJob_def)
  have call1: "call_intelligences
       (startCollectIntelligencesJob_workerCall [exampleIntelligence1] exampleSecondFlow)
       = [exampleIntelligence1]
     \<and> call_jobId
       (startCollectIntelligencesJob_workerCall [exampleIntelligence1] exampleSecondFlow)
       = Some ''job-2''"
    by (simp add: startCollectIntelligencesJob_workerCall_def
        startCollectIntelligencesJob_received_def exampleSecondFlow_eq idleJob_def)
  have resumed: "jobTimeoutHandler (runningJob exampleFirstFlowResumed)
     \<and> \<not> endingCollectIntelligencesJob (runningJob exampleFirstFlowResumed)"
    by (simp add: exampleFirstFlowResumed_eq idleJob_def)
  have call2: "call_intelligences
       (startCollectIntelligencesJob_workerCall [exampleIntelligence2] exampleFirstFlowResumed)
       = [exampleIntelligence2]
     \<and> call_jobId
       (startCollectIntelligencesJob_workerCall [exampleIntelligence2] exampleFirstFlowResumed)
       = Some ''job-2''"
    by (simp add: startCollectIntelligencesJob_workerCall_def
        startCollectIntelligencesJob_received_def exampleFirstFlowResumed_eq idleJob_def)
  have last: "ranJobNumber exampleSecondFlowResumed = 2
     \<and> totalIntelligences (runningJob exampleSecondFlowResumed) = [exampleIntelligence2]"
    by (simp add: exampleSecondFlowResumed_eq)
  show ?thesis
    using first watcher ended report second call1 resumed call2 last by blast
qed

theorem two_job_flows_on_one_record_witness:
  "truthyStr (jobId (runningJob exampleFirstFlow)) \<and>
   lockJob (runningJob exampleFirstFlow) \<and>
   \<not> endingCollectIntelligencesJob (runningJob exampleFirstFlow) \<and>
   endingCollectIntelligencesJob
     (runningJob (endCollectIntelligencesJob 3000 exampleFirstFlow)) \<and>
   ranJobNumber exampleSecondFlowResumed = 2"
  using two_job_flows_on_one_record
  by (simp add: truthyStr_def exampleFirstFlow_eq endCollectIntelligencesJob_def idleJob_def)


subsection \<open>Job timeout\<close>
















subsection \<open>Reconciliation\<close>









subsection \<open>Dispatch to the target systems\<close>

text \<open>
  C4. The code at the input that shows the defect: two intelligences with different
  callback URLs make two buckets, each bucket is reported to the control plane with its
  own intelligence only, but the call to each target system carries both intelligences.
\<close>

theorem sendToSOIAndDIA_posts_whole_list:
  "map (\<lambda>d. soi_request_intelligences (toSOI d))
     (sendToSOIAndDIA exampleConstants exampleEnvironment (\<lambda>key. Delivered) exampleProducer
        [exampleIntelligence1, exampleIntelligence2])
     = [[exampleIntelligence1, exampleIntelligence2],
        [exampleIntelligence1, exampleIntelligence2]] \<and>
   map (\<lambda>d. map_option dia_request_intelligences (toDIA d))
     (sendToSOIAndDIA exampleConstants exampleEnvironment (\<lambda>key. Delivered) exampleProducer
        [exampleIntelligence1, exampleIntelligence2])
     = [Some [exampleIntelligence1], Some [exampleIntelligence2]] \<and>
   map fst (groupBySOI exampleConstants [exampleIntelligence1, exampleIntelligence2] [])
     = [''post:http://s1/cb'', ''post:http://s2/cb'']"
  by (simp add: sendToSOIAndDIA_def dispatchBucket_def toLower_def toLowerChar_def
      example_defs Let_def)


subsection \<open>Setting the state of an intelligence\<close>

text \<open>
  C5. The code at the input that shows the defect: for an intelligence without
  system.producer.endedAt, setIntelligenceState writes the state and the reason and leaves
  endedAt absent, while for one that has endedAt it overwrites it with the current time.
\<close>

theorem setIntelligenceState_endedAt_only_when_present:
  "setIntelligenceState exampleIntelligence1 ''failed'' (Str ''boom'') 1000
     = exampleIntelligence1\<lparr>system_state := Some ''FAILED'',
                             system_failuresReason := Some ''boom''\<rparr> \<and>
   system_producer_endedAt
     (setIntelligenceState exampleIntelligence1 ''failed'' (Str ''boom'') 1000) = None \<and>
   system_producer_endedAt
     (setIntelligenceState (exampleIntelligence1\<lparr>system_producer_endedAt := Some 900\<rparr>)
        ''failed'' (Str ''boom'') 1000) = Some 1000"
  by (simp add: setIntelligenceState_def toUpper_def toUpperChar_def truthyNum_def
      reasonStr_def exampleIntelligence1_def)


subsection \<open>Rejected outcomes\<close>

text \<open>
  C6, as stated, fails: the worker-completion branch calls setIntelligenceState without a
  reason, so for a rejected intelligence that carries no failuresReason the dictionary
  entry has state FAILED and still no failuresReason.
\<close>

theorem rejected_outcome_reason_counterexample:
  "map_option system_state
     (collectedIntelligencesDict
        (runningJob (allSettledCallback [Rejected (Some exampleIntelligence2)] 1500
                       exampleRunningProducer)) ''i2'') = Some (Some ''FAILED'') \<and>
   map_option system_failuresReason
     (collectedIntelligencesDict
        (runningJob (allSettledCallback [Rejected (Some exampleIntelligence2)] 1500
                       exampleRunningProducer)) ''i2'') = Some None"
  by (simp add: allSettledCallback_def endCollect_dict exampleRunningProducer_job idleJob_def
      exampleIntelligence2_def truthyStr_def coerceString_def setIntelligenceState_def
      toUpper_states truthyNum_def)

text \<open>
  C6, amended. An outcome rejected with an object that carries a truthy globalId g is
  stored under g with state FAILED, and counted; its failuresReason is the one the
  rejected object already had, as no reason is passed. When jobTimeout is not set and no
  later outcome carries g, that entry is what the dictionary holds under g when the
  worker-completion branch is done.
\<close>

theorem rejected_outcome_marked_FAILED:
  assumes "globalId x = Some g" and "g \<noteq> []"
  shows
  "collectResult now (Rejected (Some x)) j
     = j\<lparr>collectedIntelligencesDict :=
            (collectedIntelligencesDict j)(g \<mapsto> setIntelligenceState x ''FAILED'' Undefined now),
          collectedIntelligencesNumber := collectedIntelligencesNumber j + 1\<rparr> \<and>
   system_state (setIntelligenceState x ''FAILED'' Undefined now) = Some ''FAILED'' \<and>
   system_failuresReason (setIntelligenceState x ''FAILED'' Undefined now)
     = system_failuresReason x \<and>
   (\<not> jobTimeout (runningJob p) \<and>
    (\<forall>y. Fulfilled (Some y) \<in> set later \<or> Rejected (Some y) \<in> set later
          \<longrightarrow> globalId y \<noteq> Some g)
    \<longrightarrow> collectedIntelligencesDict
          (runningJob (allSettledCallback (earlier @ Rejected (Some x) # later) now p)) g
        = Some (setIntelligenceState x ''FAILED'' Undefined now))"
proof -
  have body: "collectResult now (Rejected (Some x)) j
     = j\<lparr>collectedIntelligencesDict :=
            (collectedIntelligencesDict j)(g \<mapsto> setIntelligenceState x ''FAILED'' Undefined now),
          collectedIntelligencesNumber := collectedIntelligencesNumber j + 1\<rparr>" for j
    using assms by (simp add: truthyStr_def coerceString_def)
  have st: "system_state (setIntelligenceState x ''FAILED'' Undefined now) = Some ''FAILED''"
    by (simp add: setIntelligenceState_state toUpper_states)
  have rs: "system_failuresReason (setIntelligenceState x ''FAILED'' Undefined now)
     = system_failuresReason x"
    by (simp add: setIntelligenceState_reason)
  have loop: "collectedIntelligencesDict
          (runningJob (allSettledCallback (earlier @ Rejected (Some x) # later) now p)) g
        = Some (setIntelligenceState x ''FAILED'' Undefined now)"
    if "\<not> jobTimeout (runningJob p)"
      and "\<forall>y. Fulfilled (Some y) \<in> set later \<or> Rejected (Some y) \<in> set later
          \<longrightarrow> globalId y \<noteq> Some g"
  proof -
    let ?j0 = "(runningJob p)\<lparr>jobTimeoutHandler := False\<rparr>"
    let ?j1 = "collectForEach now earlier ?j0"
    have "collectedIntelligencesDict
            (collectForEach now (earlier @ Rejected (Some x) # later) ?j0) g
        = collectedIntelligencesDict (collectResult now (Rejected (Some x)) ?j1) g"
      using collectForEach_other_keys [OF that(2)] by (simp add: collectForEach_append)
    also have "\<dots> = Some (setIntelligenceState x ''FAILED'' Undefined now)"
      by (simp only: body) simp
    finally show ?thesis
      using that(1) by (simp add: allSettledCallback_def endCollect_dict)
  qed
  show ?thesis using body st rs loop by blast
qed

theorem rejected_outcome_marked_FAILED_witness:
  "globalId exampleIntelligence2 = Some ''i2'' \<and> ''i2'' \<noteq> [] \<and>
   \<not> jobTimeout (runningJob exampleRunningProducer) \<and>
   globalId exampleIntelligence1 \<noteq> Some ''i2'' \<and>
   collectedIntelligencesDict
     (runningJob (allSettledCallback
        [Rejected (Some exampleIntelligence2), Fulfilled (Some exampleIntelligence1)] 1500
        exampleRunningProducer)) ''i2''
     = Some (setIntelligenceState exampleIntelligence2 ''FAILED'' Undefined 1500) \<and>
   system_state (setIntelligenceState exampleIntelligence2 ''FAILED'' Undefined 1500)
     = Some ''FAILED'' \<and>
   system_failuresReason (setIntelligenceState exampleIntelligence2 ''FAILED'' Undefined 1500)
     = None"
proof -
  have a: "globalId exampleIntelligence2 = Some ''i2''" and b: "''i2'' \<noteq> []"
    and c: "\<not> jobTimeout (runningJob exampleRunningProducer)"
    and d: "globalId exampleIntelligence1 \<noteq> Some ''i2''"
    and e: "system_failuresReason exampleIntelligence2 = None"
    by (simp_all add: exampleIntelligence1_def exampleIntelligence2_def
        exampleRunningProducer_job idleJob_def)
  show ?thesis
    using a b c d e
      rejected_outcome_marked_FAILED [OF a b, of 1500 "runningJob exampleRunningProducer"
        exampleRunningProducer "[Fulfilled (Some exampleIntelligence1)]" "[]"]
    by simp
qed


subsection \<open>Unchanged remote configuration\<close>

text \<open>
  C7. A watcher tick that receives a remote configuration whose globalId and
  system.version are those of the adopted snapshot calls neither
  endPollingGetIntelligences nor startPollingGetIntelligences and leaves the producer as
  it was, but for producerError, which the successful fetch sets to null. When such a
  tick follows a tick that received a remote configuration with the same globalId and
  system.version, producerError is null already and the second tick returns the producer
  exactly as the first left it: the adopted snapshot, the job loop's interval and the
  running job are the same.
\<close>

theorem unchanged_configuration_no_restart:
  "(truthyStr (BITSKY_BASE_URL (getConfigs env p)) \<and> truthyStr (GLOBAL_ID (getConfigs env p)) \<and>
    cfg_globalId (mergeProducerConfig (DEFAULT_AGENT_CONFIGURATION K) remote)
      = Option.bind (currentProducerConfig p) cfg_globalId \<and>
    cfg_system_version (mergeProducerConfig (DEFAULT_AGENT_CONFIGURATION K) remote)
      = Option.bind (currentProducerConfig p) cfg_system_version
    \<longrightarrow> compareProducerConfiguration K env (Configuration remote) now p
          = (p\<lparr>producerError := None\<rparr>, NoAction)) \<and>
   (cfg_globalId (mergeProducerConfig (DEFAULT_AGENT_CONFIGURATION K) remote2)
      = cfg_globalId (mergeProducerConfig (DEFAULT_AGENT_CONFIGURATION K) remote1) \<and>
    cfg_system_version (mergeProducerConfig (DEFAULT_AGENT_CONFIGURATION K) remote2)
      = cfg_system_version (mergeProducerConfig (DEFAULT_AGENT_CONFIGURATION K) remote1)
    \<longrightarrow> compareProducerConfiguration K env (Configuration remote2) now2
          (fst (compareProducerConfiguration K env (Configuration remote1) now1 p))
        = (fst (compareProducerConfiguration K env (Configuration remote1) now1 p), NoAction))"
proof (intro conjI impI)
  assume "truthyStr (BITSKY_BASE_URL (getConfigs env p)) \<and> truthyStr (GLOBAL_ID (getConfigs env p)) \<and>
    cfg_globalId (mergeProducerConfig (DEFAULT_AGENT_CONFIGURATION K) remote)
      = Option.bind (currentProducerConfig p) cfg_globalId \<and>
    cfg_system_version (mergeProducerConfig (DEFAULT_AGENT_CONFIGURATION K) remote)
      = Option.bind (currentProducerConfig p) cfg_system_version"
  then show "compareProducerConfiguration K env (Configuration remote) now p
          = (p\<lparr>producerError := None\<rparr>, NoAction)"
    by (simp add: compare_unchanged)
next
  let ?p1 = "fst (compareProducerConfiguration K env (Configuration remote1) now1 p)"
  assume same: "cfg_globalId (mergeProducerConfig (DEFAULT_AGENT_CONFIGURATION K) remote2)
      = cfg_globalId (mergeProducerConfig (DEFAULT_AGENT_CONFIGURATION K) remote1) \<and>
    cfg_system_version (mergeProducerConfig (DEFAULT_AGENT_CONFIGURATION K) remote2)
      = cfg_system_version (mergeProducerConfig (DEFAULT_AGENT_CONFIGURATION K) remote1)"
  show "compareProducerConfiguration K env (Configuration remote2) now2 ?p1 = (?p1, NoAction)"
  proof (cases "truthyStr (BITSKY_BASE_URL (getConfigs env p))
                  \<and> truthyStr (GLOBAL_ID (getConfigs env p))")
    case True
    note first = compare_snapshot [of env p K remote1 now1]
    have cfgs: "getConfigs env ?p1 = getConfigs env p"
      using first True by (intro getConfigs_cong) simp
    have "compareProducerConfiguration K env (Configuration remote2) now2 ?p1
        = (?p1\<lparr>producerError := None\<rparr>, NoAction)"
      using first True same by (intro compare_unchanged) (simp_all add: cfgs)
    moreover have "?p1\<lparr>producerError := None\<rparr> = ?p1"
      using first True by (intro producerError_None_id) simp
    ultimately show ?thesis by simp
  next
    case False
    then have missing: "\<not> truthyStr (BITSKY_BASE_URL (getConfigs env p))
        \<or> \<not> truthyStr (GLOBAL_ID (getConfigs env p))" by simp
    note first = compare_missing_configs [OF missing, of K "Configuration remote1" now1]
    have cfgs: "getConfigs env ?p1 = getConfigs env p"
      using first by (intro getConfigs_cong) simp
    show ?thesis
      using first missing by (intro compare_missing_unchanged) (simp_all add: cfgs)
  qed
qed

theorem unchanged_configuration_no_restart_witness:
  "truthyStr (BITSKY_BASE_URL (getConfigs exampleEnvironment exampleRunningProducer)) \<and>
   truthyStr (GLOBAL_ID (getConfigs exampleEnvironment exampleRunningProducer)) \<and>
   Option.bind (currentProducerConfig exampleRunningProducer) cfg_globalId = None \<and>
   Option.bind (currentProducerConfig exampleRunningProducer) cfg_system_version = None \<and>
   compareProducerConfiguration exampleConstants exampleEnvironment
     (Configuration (exampleRemote\<lparr>cfg_globalId := None, cfg_system_version := None\<rparr>))
     1500 exampleRunningProducer
   = (exampleRunningProducer\<lparr>producerError := None\<rparr>, NoAction) \<and>
   cfg_globalId (mergeProducerConfig (DEFAULT_AGENT_CONFIGURATION exampleConstants)
                   (exampleRemote\<lparr>cfg_pollingInterval := Some 5\<rparr>))
     = cfg_globalId (mergeProducerConfig (DEFAULT_AGENT_CONFIGURATION exampleConstants)
                       exampleRemote) \<and>
   cfg_system_version (mergeProducerConfig (DEFAULT_AGENT_CONFIGURATION exampleConstants)
                         (exampleRemote\<lparr>cfg_pollingInterval := Some 5\<rparr>))
     = cfg_system_version (mergeProducerConfig (DEFAULT_AGENT_CONFIGURATION exampleConstants)
                             exampleRemote) \<and>
   snd (compareProducerConfiguration exampleConstants exampleEnvironment
          (Configuration exampleRemote) 1000 exampleProducer) = StartPolling \<and>
   compareProducerConfiguration exampleConstants exampleEnvironment
     (Configuration (exampleRemote\<lparr>cfg_pollingInterval := Some 5\<rparr>)) 2000
     (fst (compareProducerConfiguration exampleConstants exampleEnvironment
        (Configuration exampleRemote) 1000 exampleProducer))
   = (fst (compareProducerConfiguration exampleConstants exampleEnvironment
        (Configuration exampleRemote) 1000 exampleProducer), NoAction)"
proof -
  have cfgs: "truthyStr (BITSKY_BASE_URL (getConfigs exampleEnvironment exampleRunningProducer))"
    "truthyStr (GLOBAL_ID (getConfigs exampleEnvironment exampleRunningProducer))"
    by (simp_all add: getConfigs_def mergeField_def truthyStr_def example_defs
        startCollectIntelligencesJob_dispatched_def startCollectIntelligencesJob_received_def
        pollingTick_def startCollectIntelligencesJob_def initRunningJob_def
        resetRunningJob_def idleJob_def)
  have snapshot: "currentProducerConfig exampleRunningProducer = None"
    by (simp add: example_defs
        startCollectIntelligencesJob_dispatched_def startCollectIntelligencesJob_received_def
        pollingTick_def startCollectIntelligencesJob_def initRunningJob_def
        resetRunningJob_def idleJob_def truthyStr_def)
  have absent: "cfg_globalId (mergeProducerConfig (DEFAULT_AGENT_CONFIGURATION exampleConstants)
        (exampleRemote\<lparr>cfg_globalId := None, cfg_system_version := None\<rparr>)) = None"
    "cfg_system_version (mergeProducerConfig (DEFAULT_AGENT_CONFIGURATION exampleConstants)
        (exampleRemote\<lparr>cfg_globalId := None, cfg_system_version := None\<rparr>)) = None"
    by (simp_all add: mergeProducerConfig_def mergeField_def exampleConstants_def)
  have ids: "cfg_globalId (mergeProducerConfig (DEFAULT_AGENT_CONFIGURATION exampleConstants)
                   (exampleRemote\<lparr>cfg_pollingInterval := Some 5\<rparr>))
     = cfg_globalId (mergeProducerConfig (DEFAULT_AGENT_CONFIGURATION exampleConstants)
                       exampleRemote)"
    and versions: "cfg_system_version
         (mergeProducerConfig (DEFAULT_AGENT_CONFIGURATION exampleConstants)
            (exampleRemote\<lparr>cfg_pollingInterval := Some 5\<rparr>))
     = cfg_system_version (mergeProducerConfig (DEFAULT_AGENT_CONFIGURATION exampleConstants)
                             exampleRemote)"
    by (simp_all add: mergeProducerConfig_def)
  have first_tick: "snd (compareProducerConfiguration exampleConstants exampleEnvironment
        (Configuration exampleRemote) 1000 exampleProducer) = StartPolling"
    by (simp add: compareProducerConfiguration_def getProducerConfiguration_def Let_def
        getConfigs_def mergeField_def truthyStr_def mergeProducerConfig_def exampleRemote_def
        example_defs toUpper_def toUpperChar_def lodashToString_def typeString_def)
  note general = unchanged_configuration_no_restart [of exampleEnvironment
      exampleRunningProducer exampleConstants
      "exampleRemote\<lparr>cfg_globalId := None, cfg_system_version := None\<rparr>" 1500,
      THEN conjunct1]
  note consecutive = unchanged_configuration_no_restart [of exampleEnvironment
      exampleProducer exampleConstants exampleRemote 1000
      "exampleRemote\<lparr>cfg_pollingInterval := Some 5\<rparr>" exampleRemote 2000 1000,
      THEN conjunct2]
  have one: "compareProducerConfiguration exampleConstants exampleEnvironment
     (Configuration (exampleRemote\<lparr>cfg_globalId := None, cfg_system_version := None\<rparr>))
     1500 exampleRunningProducer
   = (exampleRunningProducer\<lparr>producerError := None\<rparr>, NoAction)"
    using general by (simp add: cfgs snapshot absent)
  have two: "compareProducerConfiguration exampleConstants exampleEnvironment
     (Configuration (exampleRemote\<lparr>cfg_pollingInterval := Some 5\<rparr>)) 2000
     (fst (compareProducerConfiguration exampleConstants exampleEnvironment
        (Configuration exampleRemote) 1000 exampleProducer))
   = (fst (compareProducerConfiguration exampleConstants exampleEnvironment
        (Configuration exampleRemote) 1000 exampleProducer), NoAction)"
    using consecutive by (simp add: ids versions)
  show ?thesis
    using cfgs snapshot ids versions first_tick one two by simp
qed


subsection \<open>Failing fetch of the remote configuration\<close>

text \<open>
  C8. The code at the input that shows the defect: on a new producer, whose producerError
  is null, a fetch that fails with an error without a status makes
  getProducerConfiguration throw a TypeError and leaves producerError null; the watcher
  tick catches the exception and does nothing else. With a status the error is
  classified, here 404.
\<close>

theorem getProducerConfiguration_no_status_throws:
  "getProducerConfiguration exampleConstants
     (exampleEnvironment
        \<lparr>process_env := exampleConfigs\<lparr>BITSKY_BASE_URL := Some ''localhost:9099''\<rparr>\<rparr>)
     (Failed \<lparr>err_status = None, err_code = Some ''ERR_INVALID_URL'',
              err_message = Some ''Invalid URL''\<rparr>)
     exampleProducer
     = (Inl TypeError, exampleProducer) \<and>
   producerError exampleProducer = None \<and>
   compareProducerConfiguration exampleConstants
     (exampleEnvironment
        \<lparr>process_env := exampleConfigs\<lparr>BITSKY_BASE_URL := Some ''localhost:9099''\<rparr>\<rparr>)
     (Failed \<lparr>err_status = None, err_code = Some ''ERR_INVALID_URL'',
              err_message = Some ''Invalid URL''\<rparr>)
     1000 exampleProducer
     = (exampleProducer, NoAction) \<and>
   map_option pe_message
     (producerError (snd (getProducerConfiguration exampleConstants exampleEnvironment
        (Failed \<lparr>err_status = Some 404, err_code = None, err_message = Some ''Not Found''\<rparr>)
        exampleProducer)))
     = Some (Some ''Cannot find any producer by producer-1. Please check your GLOBAL_ID'')"
  by (simp add: compareProducerConfiguration_def getProducerConfiguration_def
      assignInternalServerError_def producerErrorMessage_def coerceString_def
      getConfigs_def mergeField_def truthyStr_def example_defs)

theorem getProducerConfiguration_no_status_throws_witness:
  "truthyStr (BITSKY_BASE_URL (getConfigs
     (exampleEnvironment
        \<lparr>process_env := exampleConfigs\<lparr>BITSKY_BASE_URL := Some ''localhost:9099''\<rparr>\<rparr>)
     exampleProducer)) \<and>
   truthyStr (GLOBAL_ID (getConfigs
     (exampleEnvironment
        \<lparr>process_env := exampleConfigs\<lparr>BITSKY_BASE_URL := Some ''localhost:9099''\<rparr>\<rparr>)
     exampleProducer)) \<and>
   fst (getProducerConfiguration exampleConstants
     (exampleEnvironment
        \<lparr>process_env := exampleConfigs\<lparr>BITSKY_BASE_URL := Some ''localhost:9099''\<rparr>\<rparr>)
     (Failed \<lparr>err_status = None, err_code = Some ''ERR_INVALID_URL'',
              err_message = Some ''Invalid URL''\<rparr>)
     exampleProducer)
     = Inl TypeError"
  using getProducerConfiguration_no_status_throws
  by (simp add: getConfigs_def mergeField_def truthyStr_def example_defs)


subsection \<open>The type accessor\<close>

text \<open>
  C9. The code at the input that shows the defect: called with the empty string, the
  accessor returns the current type, as it does without an argument; nothing is thrown,
  and no argument at all reaches the throw. A string that is not empty is stored and the
  producer is returned.
\<close>

theorem type_accessor_empty_string_reads:
  "type_accessor (Str []) p = (Inr (CurrentType (ptype p)), p) \<and>
   type_accessor Undefined p = (Inr (CurrentType (ptype p)), p) \<and>
   fst (type_accessor t p) \<noteq> Inl e \<and>
   type_accessor (Str ''HEADLESS'') p = (Inr This, p\<lparr>ptype := Str ''HEADLESS''\<rparr>)"
  by (simp add: type_accessor_def)


subsection \<open>Configuration overrides\<close>

text \<open>
  C10. For every argument that is not an instance of Object (undefined, null, a string, a
  number, a boolean), setConfigs leaves the producer, and so the stored override snapshot,
  as it was and raises nothing (the function is total); an object argument replaces the
  snapshot.
\<close>

theorem setConfigs_non_object_noop:
  "(\<not> instanceofObject v \<longrightarrow> setConfigs v p = p) \<and>
   (\<forall>c. v = Obj c \<longrightarrow> manuallySetConfigs (setConfigs v p) = c)"
  by (cases v) (simp_all add: setConfigs_def)

theorem setConfigs_non_object_noop_witness:
  "\<not> instanceofObject (Str ''http://localhost:9099'' :: configs jsval) \<and>
   setConfigs (Str ''http://localhost:9099'') exampleProducer = exampleProducer \<and>
   manuallySetConfigs (setConfigs (Obj exampleConfigs) exampleProducer) = exampleConfigs"
  using setConfigs_non_object_noop [of "Str ''http://localhost:9099''" exampleProducer]
    setConfigs_non_object_noop [of "Obj exampleConfigs" exampleProducer]
  by simp

end
